theory Spec2Isabelle
  imports Main "HOL-Library.Word" "HOL-Library.Sublist"
begin

section \<open>Data model\<close>

text \<open>
  The newsletter routes of the server (\<^verbatim>\<open>server/routes/newsletters.js\<close>) and the
  Mongoose schema of a newsletter (\<^verbatim>\<open>server/models/newsletter.model.js\<close>).
  A document identity is a 12-byte ObjectId, a Buffer is a list of bytes, a JavaScript
  string is a list of characters (one character for one code unit, and \<open>length\<close> for
  \<^verbatim>\<open>.length\<close>). The \<^verbatim>\<open>timestamps\<close> fields of the schema
  and the HTTP headers of a response play no part in what is proved and are not carried.
\<close>

type_synonym objectId = "96 word"
type_synonym buffer = "8 word list"

record pdfContent_t =
  data :: "buffer option"
  contentType :: "string option"

record newsletter =
  title :: string
  category :: string
  status :: string
  articles :: "objectId list"
  recipients :: "objectId list"
  pdfContent :: pdfContent_t
  htmlContent :: "string option"

definition status_enum :: "string list" where
  "status_enum = [''Not Sent'', ''pending'', ''approved'', ''sent'', ''declined'']"

definition status_default :: string where
  "status_default = ''Not Sent''"

text \<open>Of a user only the identity and the email address are read; of a category the
  name and the flyer image.\<close>

record user =
  user_id :: objectId
  email :: string

record category_doc =
  c_name :: string
  c_flyerImageUrl :: "string option"

record notification =
  n_user :: objectId
  n_newsletter :: objectId
  n_message :: string
  n_actionUrl :: "string option"

record mail =
  m_to :: "string list"
  m_from_name :: string
  m_from_email :: "string option"
  m_subject :: string
  m_html :: string

text \<open>The calls that reach an external service and completed, in order.\<close>

datatype event =
    GenerateContent string
  | BrowserLaunch
  | NewPage
  | SetContent string
  | PagePdf
  | BrowserClose
  | SgSend mail

record world =
  newsletters :: "objectId \<rightharpoonup> newsletter"
  users :: "user list"
  categories :: "category_doc list"
  notifications :: "notification list"
  events :: "event list"

datatype body = Message string | Doc "newsletter option" | PdfData buffer

datatype response = Response (code: nat) (body: body)

definition emit :: "event \<Rightarrow> world \<Rightarrow> world" where
  "emit e w = w\<lparr>events := events w @ [e]\<rparr>"

section \<open>Template literals\<close>

definition digit_char :: "nat \<Rightarrow> char" where
  "digit_char n = ''0123456789'' ! n"

fun show_nat :: "nat \<Rightarrow> string" where
  "show_nat n = (if n < 10 then [digit_char n] else show_nat (n div 10) @ [digit_char (n mod 10)])"

declare show_nat.simps [simp del]

text \<open>A value interpolated into a template literal: \<^verbatim>\<open>undefined\<close> prints as the
  word.\<close>

definition interpolate :: "string option \<Rightarrow> string" where
  "interpolate v = (case v of None \<Rightarrow> ''undefined'' | Some s \<Rightarrow> s)"

definition mail_html_intro :: string where
  \<open>mail_html_intro =
   ''\<newline>'' @
   ''                        <p>Hi there,</p>\<newline>'' @
   ''                        <p>Here is your latest newsletter, <strong>''\<close>

definition mail_html_after_title :: string where
  \<open>mail_html_after_title =
   ''</strong>! We've gathered some of the most interesting stories and updates for you. We hope you enjoy it!</p>\<newline>'' @
   ''                        ''\<close>

definition mail_html_after_content :: string where
  \<open>mail_html_after_content =
   ''\<newline>'' @
   ''                        <p>Thanks for being a subscriber!</p>\<newline>'' @
   ''                        <p>Best,</p>\<newline>'' @
   ''                        <p>The NewsLetterAI Team</p>\<newline>'' @
   ''                    ''\<close>

section \<open>The send route\<close>

text \<open>
  \<^verbatim>\<open>POST /:id/send\<close>. What the environment decides in one request: whether a
  SendGrid key is configured, the sender address, and which of the calls to the store
  and to the provider throw. An unordered \<^verbatim>\<open>insertMany\<close> that throws may still
  have written some documents of the batch: \<open>InsertError wrote\<close> says which positions.
\<close>

datatype insert_outcome = Inserted | InsertError "nat \<Rightarrow> bool"

record send_env =
  SENDGRID_API_KEY :: bool
  FROM_EMAIL :: "string option"
  findById_throws :: bool
  User_find_throws :: bool
  sgMail_send_throws :: bool
  newsletter_save_throws :: bool
  insertMany_outcome :: insert_outcome

text \<open>Mongoose's \<^verbatim>\<open>addToSet\<close> on an array: each value in turn is pushed unless
  the array already holds it.\<close>

fun addToSet :: "'a list \<Rightarrow> 'a list \<Rightarrow> 'a list" where
  "addToSet arr [] = arr"
| "addToSet arr (v # vs) = addToSet (if v \<in> set arr then arr else arr @ [v]) vs"

definition User_find_in :: "world \<Rightarrow> objectId list \<Rightarrow> user list" where
  "User_find_in w userIds = filter (\<lambda>u. user_id u \<in> set userIds) (users w)"

definition send_msg :: "send_env \<Rightarrow> newsletter \<Rightarrow> user list \<Rightarrow> mail" where
  "send_msg env n rs =
     \<lparr>m_to = map email rs,
      m_from_name = ''NewsLetterAI'',
      m_from_email = FROM_EMAIL env,
      m_subject = ''Your Newsletter: '' @ title n,
      m_html = mail_html_intro @ title n @ mail_html_after_title
                 @ interpolate (htmlContent n) @ mail_html_after_content\<rparr>"

text \<open>The delivery block (lines 219 to 237): \<open>None\<close> when a call in it throws.\<close>

definition deliver :: "send_env \<Rightarrow> newsletter \<Rightarrow> objectId list \<Rightarrow> world \<Rightarrow> world option" where
  "deliver env n userIds w =
     (if SENDGRID_API_KEY env then
        (if User_find_throws env then None
         else let rs = User_find_in w userIds in
           if rs \<noteq> [] then
             (if sgMail_send_throws env then None
              else Some (emit (SgSend (send_msg env n rs)) w))
           else Some w)
      else Some w)"

definition enumerate_from0 :: "'a list \<Rightarrow> (nat \<times> 'a) list" where
  "enumerate_from0 xs = zip [0..<length xs] xs"

definition insertMany :: "insert_outcome \<Rightarrow> notification list \<Rightarrow> world \<Rightarrow> world" where
  "insertMany out docs w =
     (case out of
        Inserted \<Rightarrow> w\<lparr>notifications := notifications w @ docs\<rparr>
      | InsertError wrote \<Rightarrow>
          w\<lparr>notifications := notifications w
                @ map snd (filter (\<lambda>p. wrote (fst p)) (enumerate_from0 docs))\<rparr>)"

definition send_notifications :: "objectId \<Rightarrow> newsletter \<Rightarrow> objectId list \<Rightarrow> notification list" where
  \<open>send_notifications nid n userIds =
     map (\<lambda>userId. \<lparr>n_user = userId, n_newsletter = nid,
                     n_message = ''You received the "'' @ title n @ ''" newsletter.'',
                     n_actionUrl = None\<rparr>) userIds\<close>

text \<open>The inner \<^verbatim>\<open>try\<close> (lines 242 to 253): a throw of \<^verbatim>\<open>insertMany\<close> is caught and
  logged, so the block always completes.\<close>

definition notify_recipients :: "send_env \<Rightarrow> objectId \<Rightarrow> newsletter \<Rightarrow> objectId list \<Rightarrow> world \<Rightarrow> world" where
  "notify_recipients env nid n userIds w =
     (let docs = send_notifications nid n userIds in
      if docs \<noteq> [] then insertMany (insertMany_outcome env) docs w else w)"

definition send_failed :: response where
  "send_failed = Response 500 (Message ''Failed to send newsletter due to a server error.'')"

definition send :: "send_env \<Rightarrow> objectId \<Rightarrow> objectId list option \<Rightarrow> world \<Rightarrow> world \<times> response" where
  "send env nid body_userIds w =
     (case body_userIds of
        None \<Rightarrow> (w, Response 400 (Message ''No recipients selected.''))
      | Some userIds \<Rightarrow>
          if userIds = [] then (w, Response 400 (Message ''No recipients selected.''))
          else if findById_throws env then (w, send_failed)
          else
            (case newsletters w nid of
               None \<Rightarrow> (w, Response 404 (Message ''Newsletter not found.''))
             | Some n \<Rightarrow>
                 (case deliver env n userIds w of
                    None \<Rightarrow> (w, send_failed)
                  | Some w1 \<Rightarrow>
                      if newsletter_save_throws env then (w1, send_failed)
                      else
                        let n' = n\<lparr>status := ''sent'',
                                    recipients := addToSet (recipients n) userIds\<rparr>;
                            w2 = w1\<lparr>newsletters := (newsletters w1)(nid \<mapsto> n')\<rparr>;
                            w3 = notify_recipients env nid n' userIds w2
                        in (w3, Response 200 (Message
                              (''Newsletter successfully sent to ''
                                 @ show_nat (length userIds) @ '' user(s).''))))))"

section \<open>Status update and deletion\<close>

text \<open>\<^verbatim>\<open>PATCH /:id/status\<close>: \<^verbatim>\<open>findByIdAndUpdate\<close> with \<^verbatim>\<open>{ new: true }\<close>
  answers the updated document, or \<^verbatim>\<open>null\<close> when no document has the identity; the
  handler sends whichever it got.\<close>

definition patch_status :: "bool \<Rightarrow> objectId \<Rightarrow> string \<Rightarrow> world \<Rightarrow> world \<times> response" where
  "patch_status findByIdAndUpdate_throws nid st w =
     (if findByIdAndUpdate_throws
      then (w, Response 500 (Message ''Server error updating status.''))
      else
        (case newsletters w nid of
           None \<Rightarrow> (w, Response 200 (Doc None))
         | Some n \<Rightarrow>
             let updatedNewsletter = n\<lparr>status := st\<rparr>
             in (w\<lparr>newsletters := (newsletters w)(nid \<mapsto> updatedNewsletter)\<rparr>,
                 Response 200 (Doc (Some updatedNewsletter)))))"

text \<open>\<^verbatim>\<open>DELETE /:id\<close>.\<close>

definition delete_newsletter :: "bool \<Rightarrow> objectId \<Rightarrow> world \<Rightarrow> world \<times> response" where
  "delete_newsletter findByIdAndDelete_throws nid w =
     (if findByIdAndDelete_throws
      then (w, Response 500 (Message ''Server error while deleting newsletter.''))
      else
        (case newsletters w nid of
           None \<Rightarrow> (w, Response 404 (Message ''Newsletter not found.''))
         | Some n \<Rightarrow>
             (w\<lparr>newsletters := (newsletters w)(nid := None)\<rparr>,
              Response 200 (Message ''Newsletter deleted successfully.''))))"

section \<open>The Prompt Composer\<close>

text \<open>
  \<^verbatim>\<open>createAdvancedNewsletterHtmlPrompt\<close> (lines 25 to 79). A property of an article
  is absent, \<^verbatim>\<open>null\<close> or a string. The function reads the clock
  (\<^verbatim>\<open>new Date()\<close>); the reading is an argument here, given by the local-time
  getters of the Date object.
\<close>

datatype field = Undefined | Null | Str string

record article =
  a_id :: objectId
  a_title :: field
  a_summary :: field
  a_sourceName :: field
  a_category :: field
  a_originalUrl :: field
  a_imageUrl :: field

record js_date =
  getFullYear :: int
  getMonth :: nat
  getDate :: nat
  getHours :: nat
  getMinutes :: nat
  getSeconds :: nat
  getMilliseconds :: nat

subsection \<open>date-fns: the pattern \<^verbatim>\<open>MMMM do, yyyy\<close>\<close>

definition month_names :: "string list" where
  "month_names = [''January'', ''February'', ''March'', ''April'', ''May'', ''June'', ''July'',
     ''August'', ''September'', ''October'', ''November'', ''December'']"

definition ordinalNumber :: "nat \<Rightarrow> string" where
  "ordinalNumber number =
     (let rem100 = number mod 100 in
      if (rem100 > 20 \<or> rem100 < 10) \<and> rem100 mod 10 = 1 then show_nat number @ ''st''
      else if (rem100 > 20 \<or> rem100 < 10) \<and> rem100 mod 10 = 2 then show_nat number @ ''nd''
      else if (rem100 > 20 \<or> rem100 < 10) \<and> rem100 mod 10 = 3 then show_nat number @ ''rd''
      else show_nat number @ ''th'')"

definition addLeadingZeros :: "nat \<Rightarrow> nat \<Rightarrow> string" where
  "addLeadingZeros number targetLength =
     (let s = show_nat number in replicate (targetLength - length s) (CHR ''0'') @ s)"

definition format_yyyy :: "int \<Rightarrow> string" where
  "format_yyyy signedYear =
     addLeadingZeros (if signedYear > 0 then nat signedYear else nat (1 - signedYear)) 4"

definition format_MMMM_do_yyyy :: "js_date \<Rightarrow> string" where
  "format_MMMM_do_yyyy d =
     (if getMonth d < 12 then month_names ! getMonth d else [])
       @ '' '' @ ordinalNumber (getDate d) @ '', '' @ format_yyyy (getFullYear d)"

subsection \<open>\<^verbatim>\<open>JSON.stringify\<close> with an indentation of two spaces\<close>

definition hex_digit :: "nat \<Rightarrow> char" where
  "hex_digit n = ''0123456789abcdef'' ! n"

definition backslash :: char where
  "backslash = CHR 0x5C"

definition escape_char :: "char \<Rightarrow> string" where
  "escape_char c =
     (if c = CHR 0x08 then [backslash, CHR ''b'']
      else if c = CHR 0x09 then [backslash, CHR ''t'']
      else if c = CHR 0x0A then [backslash, CHR ''n'']
      else if c = CHR 0x0C then [backslash, CHR ''f'']
      else if c = CHR 0x0D then [backslash, CHR ''r'']
      else if c = CHR 0x22 then [backslash, CHR 0x22]
      else if c = backslash then [backslash, backslash]
      else if (of_char c :: nat) < 32
        then [backslash, CHR ''u'', CHR ''0'', CHR ''0'',
              hex_digit (of_char c div 16), hex_digit (of_char c mod 16)]
      else [c])"

definition QuoteJSONString :: "string \<Rightarrow> string" where
  "QuoteJSONString s = [CHR 0x22] @ concat (map escape_char s) @ [CHR 0x22]"

fun join :: "string \<Rightarrow> string list \<Rightarrow> string" where
  "join sep [] = []"
| "join sep [x] = x"
| "join sep (x # y # ys) = x @ sep @ join sep (y # ys)"

definition stringify_field :: "field \<Rightarrow> string option" where
  "stringify_field v =
     (case v of Undefined \<Rightarrow> None | Null \<Rightarrow> Some ''null'' | Str s \<Rightarrow> Some (QuoteJSONString s))"

text \<open>A property whose value is \<^verbatim>\<open>undefined\<close> is left out of the object.\<close>

definition present_properties :: "(string \<times> string option) list \<Rightarrow> string list" where
  "present_properties props =
     concat (map (\<lambda>p. case snd p of None \<Rightarrow> []
                        | Some v \<Rightarrow> [QuoteJSONString (fst p) @ '': '' @ v]) props)"

definition SerializeJSONObject :: "string \<Rightarrow> (string \<times> string option) list \<Rightarrow> string" where
  "SerializeJSONObject stepback props =
     (let indent = stepback @ ''  ''; partial = present_properties props in
      if partial = [] then ''{}''
      else ''{\<newline>'' @ indent @ join ('',\<newline>'' @ indent) partial
             @ ''\<newline>'' @ stepback @ ''}'')"

definition SerializeJSONArray :: "string \<Rightarrow> string list \<Rightarrow> string" where
  "SerializeJSONArray stepback partial =
     (let indent = stepback @ ''  '' in
      if partial = [] then ''[]''
      else ''[\<newline>'' @ indent @ join ('',\<newline>'' @ indent) partial
             @ ''\<newline>'' @ stepback @ '']'')"

definition articlesForPrompt :: "article \<Rightarrow> (string \<times> string option) list" where
  "articlesForPrompt a =
     [(''title'', stringify_field (a_title a)),
      (''summary'', stringify_field (a_summary a)),
      (''source'', stringify_field (a_sourceName a)),
      (''category'', stringify_field (a_category a)),
      (''originalUrl'', stringify_field (a_originalUrl a)),
      (''imageUrl'', stringify_field (a_imageUrl a))]"

definition JSON_stringify_articles :: "article list \<Rightarrow> string" where
  "JSON_stringify_articles arts =
     SerializeJSONObject []
       [(''articles'',
         Some (SerializeJSONArray ''  ''
                 (map (\<lambda>a. SerializeJSONObject ''    '' (articlesForPrompt a)) arts)))]"

subsection \<open>The template\<close>

definition prompt_intro :: string where
  \<open>prompt_intro =
   ''\<newline>'' @
   ''        Act as an expert HTML and CSS email designer. Your task is to generate a single, complete HTML file for a professional and visually appealing newsletter based on the provided JSON data.\<newline>'' @
   ''\<newline>'' @
   ''        **Design & Layout Guidelines:**\<newline>'' @
   ''\<newline>'' @
   ''        1.  **Overall Structure:**\<newline>'' @
   ''            * Use a main container with a max-width of 680px, centered with a light gray background (#f4f4f4).\<newline>'' @
   ''            * The email body should have a clean, white background (#ffffff) with rounded corners and a subtle shadow.\<newline>'' @
   ''            * Use a professional and readable font like 'Helvetica Neue', Helvetica, Arial, sans-serif.\<newline>'' @
   ''\<newline>'' @
   ''        2.  **Header:**\<newline>'' @
   ''            * Include a preheader text: "Your weekly dose of insightful news."\<newline>'' @
   ''            * A main header with the newsletter title "''\<close>

definition prompt_after_title :: string where
  \<open>prompt_after_title =
   ''" in a large, bold font (e.g., 32px) and a dark color (#333333).\<newline>'' @
   ''            * Include the date (''\<close>

definition prompt_after_date :: string where
  \<open>prompt_after_date =
   '') in a smaller, lighter font.\<newline>'' @
   ''\<newline>'' @
   ''        3.  **Flyer Image:**\<newline>'' @
   ''            ''\<close>

definition prompt_after_flyer :: string where
  \<open>prompt_after_flyer =
   ''\<newline>'' @
   ''\<newline>'' @
   ''        4.  **Article Layout:**\<newline>'' @
   ''            * Use a single-column layout for articles.\<newline>'' @
   ''            * Each article should have a clear headline, a brief summary, and a "Read More" button linking to the original article.\<newline>'' @
   ''            * If an `imageUrl` is provided for an article, display it above the headline.\<newline>'' @
   ''\<newline>'' @
   ''        5.  **Styling:**\<newline>'' @
   ''            * Use inline CSS for all styling to ensure maximum compatibility with email clients.\<newline>'' @
   ''            * Buttons should have a solid background color, rounded corners, and clear, legible text.\<newline>'' @
   ''            * Use ample white space to improve readability.\<newline>'' @
   ''\<newline>'' @
   ''        6.  **Footer:**\<newline>'' @
   ''            * Include a footer with your company name, address, and a link to unsubscribe.\<newline>'' @
   ''            * Add social media icons (as links) for platforms like Twitter, LinkedIn, and Facebook.\<newline>'' @
   ''\<newline>'' @
   ''        **JSON Data to Use:**\<newline>'' @
   ''        ```json\<newline>'' @
   ''        ''\<close>

definition prompt_after_json :: string where
  \<open>prompt_after_json =
   ''\<newline>'' @
   ''        ```\<newline>'' @
   ''\<newline>'' @
   ''        **IMPORTANT: Your response MUST be only the raw HTML code, starting with <!DOCTYPE html>. Do not add any commentary or explanations.**\<newline>'' @
   ''    ''\<close>

definition flyer_img_open :: string where
  \<open>flyer_img_open =
   ''<img src="''\<close>

definition flyer_img_close :: string where
  \<open>flyer_img_close =
   ''" alt="Flyer Image" style="max-width: 100%; height: auto; display: block; margin-bottom: 20px; border-radius: 5px;">''\<close>

definition flyerImageHtml :: "string option \<Rightarrow> string" where
  "flyerImageHtml flyerImageUrl =
     (case flyerImageUrl of
        None \<Rightarrow> []
      | Some u \<Rightarrow> if u = [] then [] else flyer_img_open @ u @ flyer_img_close)"

definition createAdvancedNewsletterHtmlPrompt ::
    "js_date \<Rightarrow> article list \<Rightarrow> string \<Rightarrow> string option \<Rightarrow> string" where
  "createAdvancedNewsletterHtmlPrompt now arts ttl flyerImageUrl =
     prompt_intro @ ttl @ prompt_after_title @ format_MMMM_do_yyyy now @ prompt_after_date
       @ flyerImageHtml flyerImageUrl @ prompt_after_flyer
       @ JSON_stringify_articles arts @ prompt_after_json"

section \<open>The generation route\<close>

text \<open>
  \<^verbatim>\<open>POST /generate-and-save\<close> (lines 98 to 167). The two \<^verbatim>\<open>replace\<close> calls of
  line 120 use regular expressions without flags: the first removes the opening fence
  only at the very start of the text, the second the closing fence only at its very end.
  What the environment decides in one request: whether the Gemini client exists, the
  clock, the reply of the generation service and the bytes the page prints to (each
  \<open>None\<close> when the call throws), which of the other calls throw, and the identity the
  new document gets.
\<close>

definition replace_at_start :: "string \<Rightarrow> string \<Rightarrow> string" where
  "replace_at_start p s = (if prefix p s then drop (length p) s else s)"

definition replace_at_end :: "string \<Rightarrow> string \<Rightarrow> string" where
  "replace_at_end p s = (if suffix p s then take (length s - length p) s else s)"

definition strip_code_fence :: "string \<Rightarrow> string" where
  "strip_code_fence raw =
     replace_at_end ''\<newline>```'' (replace_at_start ''```html\<newline>'' raw)"

text \<open>The check of line 122.\<close>

definition html_rejected :: "string \<Rightarrow> bool" where
  "html_rejected generatedHtml = (generatedHtml = [] \<or> length generatedHtml < 100)"

record gen_env =
  GEMINI_API_KEY :: bool
  Category_findOne_throws :: bool
  now :: js_date
  generateContent_result :: "string option"
  launch_throws :: bool
  newPage_throws :: bool
  setContent_throws :: bool
  pdf_result :: "buffer option"
  close_throws :: bool
  new_id :: objectId
  newNewsletter_save_throws :: bool
  notification_save_throws :: bool

record generate_body =
  body_articles :: "article list option"
  body_title :: "string option"
  body_category :: "string option"

text \<open>Lines 128 to 132: the browser is launched, a page is opened, loaded and printed,
  and the browser is closed. \<open>None\<close> when one of the calls throws; the events say how
  far the block came.\<close>

definition render :: "gen_env \<Rightarrow> string \<Rightarrow> world \<Rightarrow> world \<times> buffer option" where
  "render env generatedHtml w =
     (if launch_throws env then (w, None)
      else let w1 = emit BrowserLaunch w in
        if newPage_throws env then (w1, None)
        else let w2 = emit NewPage w1 in
          if setContent_throws env then (w2, None)
          else let w3 = emit (SetContent generatedHtml) w2 in
            (case pdf_result env of
               None \<Rightarrow> (w3, None)
             | Some pdfBuffer \<Rightarrow>
                 let w4 = emit PagePdf w3 in
                 if close_throws env then (w4, None)
                 else (emit BrowserClose w4, Some pdfBuffer)))"

definition generate_failed :: response where
  "generate_failed =
     Response 500 (Message ''Failed to generate and save PDF. Check server logs for details.'')"

definition fields_required :: response where
  "fields_required = Response 400 (Message ''Title, category, and articles are required.'')"

definition generated_notification :: "objectId \<Rightarrow> objectId \<Rightarrow> newsletter \<Rightarrow> notification" where
  \<open>generated_notification req_user nid n =
     \<lparr>n_user = req_user, n_newsletter = nid,
      n_message = ''New newsletter "'' @ title n
        @ ''" generated. Check it out in "Newsletter History" to share and view.'',
      n_actionUrl = Some ''/dashboard?tab=generated-newsletters''\<rparr>\<close>

text \<open>Steps 1 to 4 of the handler, once the request has its three fields.\<close>

definition generate_pipeline ::
    "gen_env \<Rightarrow> objectId \<Rightarrow> article list \<Rightarrow> string \<Rightarrow> string \<Rightarrow> world \<Rightarrow> world \<times> response" where
  "generate_pipeline env req_user arts ttl cat w =
     (if Category_findOne_throws env then (w, generate_failed)
      else
        let flyerImageUrl =
              (case find (\<lambda>c. c_name c = cat) (categories w) of
                 None \<Rightarrow> None | Some categoryData \<Rightarrow> c_flyerImageUrl categoryData);
            prompt = createAdvancedNewsletterHtmlPrompt (now env) arts ttl flyerImageUrl
        in
          (case generateContent_result env of
             None \<Rightarrow> (w, generate_failed)
           | Some raw \<Rightarrow>
               let w1 = emit (GenerateContent prompt) w;
                   generatedHtml = strip_code_fence raw
               in
               if html_rejected generatedHtml then (w1, generate_failed)
               else
                 (case render env generatedHtml w1 of
                    (w2, None) \<Rightarrow> (w2, generate_failed)
                  | (w2, Some pdfBuffer) \<Rightarrow>
                      let newNewsletter =
                            \<lparr>title = ttl, category = cat, status = ''Not Sent'',
                             articles = map a_id arts, recipients = [],
                             pdfContent = \<lparr>data = Some pdfBuffer,
                                           contentType = Some ''application/pdf''\<rparr>,
                             htmlContent = Some generatedHtml\<rparr>
                      in
                        if newNewsletter_save_throws env then (w2, generate_failed)
                        else if newsletters w2 (new_id env) \<noteq> None then (w2, generate_failed)
                        else
                          let w3 = w2\<lparr>newsletters := (newsletters w2)(new_id env \<mapsto> newNewsletter)\<rparr>
                          in
                            if notification_save_throws env then (w3, generate_failed)
                            else
                              (w3\<lparr>notifications := notifications w3
                                    @ [generated_notification req_user (new_id env) newNewsletter]\<rparr>,
                               Response 200 (PdfData pdfBuffer)))))"

text \<open>The guard of line 107: the three fields of the body, when each is present and
  not empty.\<close>

definition body_fields :: "generate_body \<Rightarrow> (article list \<times> string \<times> string) option" where
  "body_fields req =
     (case body_articles req of
        None \<Rightarrow> None
      | Some arts \<Rightarrow>
          if arts = [] then None
          else
            (case body_title req of
               None \<Rightarrow> None
             | Some ttl \<Rightarrow>
                 if ttl = [] then None
                 else
                   (case body_category req of
                      None \<Rightarrow> None
                    | Some cat \<Rightarrow> if cat = [] then None else Some (arts, ttl, cat))))"

definition generate_and_save ::
    "gen_env \<Rightarrow> objectId \<Rightarrow> generate_body \<Rightarrow> world \<Rightarrow> world \<times> response" where
  "generate_and_save env req_user req w =
     (if GEMINI_API_KEY env then
        (case body_fields req of
           None \<Rightarrow> (w, fields_required)
         | Some (arts, ttl, cat) \<Rightarrow> generate_pipeline env req_user arts ttl cat w)
      else (w, Response 500 (Message ''Gemini API client is not initialized.'')))"

section \<open>The states the routes can reach\<close>

text \<open>From a store with no newsletter, by any sequence of requests to the four routes
  that write, under any behaviour of the environment.\<close>

inductive reachable :: "world \<Rightarrow> bool" where
  reach_init: "newsletters w = Map.empty \<Longrightarrow> reachable w"
| reach_generate: "reachable w \<Longrightarrow> reachable (fst (generate_and_save env req_user req w))"
| reach_patch: "reachable w \<Longrightarrow> reachable (fst (patch_status thr nid st w))"
| reach_delete: "reachable w \<Longrightarrow> reachable (fst (delete_newsletter thr nid w))"
| reach_send: "reachable w \<Longrightarrow> reachable (fst (send senv nid body_userIds w))"

section \<open>Observations used in the statements\<close>

text \<open>How many browsers a run has launched and closed, when the delivery block or the
  render block throws, and whether a newsletter holds its artifact and its markup.\<close>

definition launches :: "world \<Rightarrow> nat" where
  "launches w = length (filter (\<lambda>e. e = BrowserLaunch) (events w))"

definition closes :: "world \<Rightarrow> nat" where
  "closes w = length (filter (\<lambda>e. e = BrowserClose) (events w))"

definition delivery_throws :: "send_env \<Rightarrow> world \<Rightarrow> objectId list \<Rightarrow> bool" where
  "delivery_throws env w userIds =
     (SENDGRID_API_KEY env \<and>
      (User_find_throws env \<or> (User_find_in w userIds \<noteq> [] \<and> sgMail_send_throws env)))"

definition delivery_call_fails :: "send_env \<Rightarrow> world \<Rightarrow> objectId list \<Rightarrow> bool" where
  "delivery_call_fails env w userIds =
     (SENDGRID_API_KEY env \<and> \<not> User_find_throws env
        \<and> User_find_in w userIds \<noteq> [] \<and> sgMail_send_throws env)"

definition render_throws :: "gen_env \<Rightarrow> bool" where
  "render_throws env =
     (launch_throws env \<or> newPage_throws env \<or> setContent_throws env
        \<or> pdf_result env = None \<or> close_throws env)"

definition has_artifact :: "newsletter \<Rightarrow> bool" where
  "has_artifact n = (data (pdfContent n) \<noteq> None)"

definition has_markup :: "newsletter \<Rightarrow> bool" where
  "has_markup n = (htmlContent n \<noteq> None)"

text \<open>The record that lines 136 to 146 build.\<close>

definition created :: "article list \<Rightarrow> string \<Rightarrow> string \<Rightarrow> string \<Rightarrow> buffer \<Rightarrow> newsletter" where
  "created arts ttl cat generatedHtml pdfBuffer =
     \<lparr>title = ttl, category = cat, status = ''Not Sent'', articles = map a_id arts,
      recipients = [],
      pdfContent = \<lparr>data = Some pdfBuffer, contentType = Some ''application/pdf''\<rparr>,
      htmlContent = Some generatedHtml\<rparr>"

section \<open>Sample data\<close>

definition sample_users :: "user list" where
  "sample_users = [\<lparr>user_id = 1, email = ''ann@example.org''\<rparr>,
                   \<lparr>user_id = 2, email = ''bob@example.org''\<rparr>]"

definition sample_newsletter :: newsletter where
  "sample_newsletter =
     \<lparr>title = ''Weekly Digest'', category = ''Tech'', status = ''approved'',
      articles = [11], recipients = [1],
      pdfContent = \<lparr>data = Some [37, 80, 68, 70], contentType = Some ''application/pdf''\<rparr>,
      htmlContent = Some ''<!DOCTYPE html><html></html>''\<rparr>"

definition empty_world :: world where
  "empty_world = \<lparr>newsletters = Map.empty, users = sample_users, categories = [],
                   notifications = [], events = []\<rparr>"

definition sample_world :: world where
  "sample_world = empty_world\<lparr>newsletters := [7 \<mapsto> sample_newsletter]\<rparr>"

definition sample_send_env :: send_env where
  "sample_send_env =
     \<lparr>SENDGRID_API_KEY = True, FROM_EMAIL = Some ''news@example.org'',
      findById_throws = False, User_find_throws = False, sgMail_send_throws = False,
      newsletter_save_throws = False, insertMany_outcome = Inserted\<rparr>"

definition sample_article :: article where
  "sample_article =
     \<lparr>a_id = 11, a_title = Str ''X'', a_summary = Str ''Y'', a_sourceName = Str ''Z'',
      a_category = Undefined, a_originalUrl = Str ''http://...'', a_imageUrl = Undefined\<rparr>"

definition sample_body :: generate_body where
  "sample_body = \<lparr>body_articles = Some [sample_article], body_title = Some ''Weekly Digest'',
                   body_category = Some ''Tech''\<rparr>"

definition sample_date :: js_date where
  "sample_date = \<lparr>getFullYear = 2024, getMonth = 0, getDate = 1, getHours = 9,
                   getMinutes = 30, getSeconds = 0, getMilliseconds = 0\<rparr>"

text \<open>A reply of one hundred characters that is no HTML document, and one that is
  wrapped in a code fence.\<close>

definition plain_reply :: string where
  "plain_reply = replicate 100 (CHR ''a'')"

definition sample_html :: string where
  "sample_html = ''<!DOCTYPE html>'' @ replicate 100 (CHR ''a'')"

definition fenced_reply :: string where
  "fenced_reply = ''```html\<newline>'' @ sample_html @ ''\<newline>```''"

definition sample_gen_env :: gen_env where
  "sample_gen_env =
     \<lparr>GEMINI_API_KEY = True, Category_findOne_throws = False, now = sample_date,
      generateContent_result = Some fenced_reply,
      launch_throws = False, newPage_throws = False, setContent_throws = False,
      pdf_result = Some [37, 80, 68, 70], close_throws = False, new_id = 7,
      newNewsletter_save_throws = False, notification_save_throws = False\<rparr>"

section \<open>The send route: properties\<close>

lemma addToSet_set: "set (addToSet arr vs) = set arr \<union> set vs"
  by (induction vs arbitrary: arr) auto

lemma addToSet_distinct: "distinct arr \<Longrightarrow> distinct (addToSet arr vs)"
  by (induction vs arbitrary: arr) auto

lemma deliver_None_iff: "deliver env n userIds w = None \<longleftrightarrow> delivery_throws env w userIds"
  by (simp add: deliver_def delivery_throws_def Let_def)

lemma delivery_call_fails_throws:
  "delivery_call_fails env w userIds \<Longrightarrow> delivery_throws env w userIds"
  by (simp add: delivery_call_fails_def delivery_throws_def)

lemma deliver_Some_store:
  assumes "deliver env n userIds w = Some w1"
  shows "newsletters w1 = newsletters w" and "notifications w1 = notifications w"
    and "users w1 = users w"
  using assms by (auto simp: deliver_def emit_def Let_def split: if_splits)

lemma notify_recipients_store:
  "newsletters (notify_recipients env nid n userIds w) = newsletters w"
  by (simp add: notify_recipients_def insertMany_def Let_def split: insert_outcome.splits)

lemma send_aborts:
  assumes "userIds \<noteq> []" and "\<not> findById_throws env" and "newsletters w nid = Some n"
    and "delivery_throws env w userIds"
  shows "send env nid (Some userIds) w = (w, send_failed)"
proof -
  from assms(4) have "deliver env n userIds w = None"
    by (simp add: deliver_None_iff)
  with assms(1-3) show ?thesis
    by (simp add: send_def)
qed

lemma send_stores:
  assumes "userIds \<noteq> []" and "\<not> findById_throws env" and "newsletters w nid = Some n"
    and "\<not> delivery_throws env w userIds" and "\<not> newsletter_save_throws env"
  shows "newsletters (fst (send env nid (Some userIds) w)) =
           (newsletters w)(nid \<mapsto> n\<lparr>status := ''sent'',
                                      recipients := addToSet (recipients n) userIds\<rparr>)"
    and "snd (send env nid (Some userIds) w) =
           Response 200 (Message (''Newsletter successfully sent to ''
                                    @ show_nat (length userIds) @ '' user(s).''))"
proof -
  from assms(4) have "deliver env n userIds w \<noteq> None"
    by (simp add: deliver_None_iff)
  then obtain w1 where d: "deliver env n userIds w = Some w1"
    by blast
  then have s: "newsletters w1 = newsletters w"
    by (rule deliver_Some_store)
  from assms(1-3,5) d s
  show "newsletters (fst (send env nid (Some userIds) w)) =
           (newsletters w)(nid \<mapsto> n\<lparr>status := ''sent'',
                                      recipients := addToSet (recipients n) userIds\<rparr>)"
    by (simp add: send_def Let_def notify_recipients_store)
  from assms(1-3,5) d
  show "snd (send env nid (Some userIds) w) =
           Response 200 (Message (''Newsletter successfully sent to ''
                                    @ show_nat (length userIds) @ '' user(s).''))"
    by (simp add: send_def Let_def)
qed

lemma send_store_cases:
  "newsletters (fst (send env nid b w)) = newsletters w \<or>
   (\<exists>n userIds. newsletters w nid = Some n \<and>
      newsletters (fst (send env nid b w)) =
        (newsletters w)(nid \<mapsto> n\<lparr>status := ''sent'',
                                   recipients := addToSet (recipients n) userIds\<rparr>))"
proof (cases "\<exists>userIds n. b = Some userIds \<and> userIds \<noteq> [] \<and> \<not> findById_throws env
                \<and> newsletters w nid = Some n \<and> \<not> delivery_throws env w userIds
                \<and> \<not> newsletter_save_throws env")
  case True
  then obtain userIds n where "b = Some userIds" and "userIds \<noteq> []"
    and "\<not> findById_throws env" and "newsletters w nid = Some n"
    and "\<not> delivery_throws env w userIds" and "\<not> newsletter_save_throws env"
    by blast
  then show ?thesis
    using send_stores(1) [of userIds env w nid n] by blast
next
  case False
  have "newsletters (fst (send env nid b w)) = newsletters w"
  proof (cases b)
    case None
    then show ?thesis by (simp add: send_def)
  next
    case (Some userIds)
    show ?thesis
    proof (cases "newsletters w nid")
      case None
      with Some show ?thesis by (simp add: send_def)
    next
      case (Some n)
      show ?thesis
      proof (cases "deliver env n userIds w")
        case None
        with Some \<open>b = Some userIds\<close> show ?thesis by (simp add: send_def)
      next
        case (Some w1)
        then have "\<not> delivery_throws env w userIds"
          using deliver_None_iff [of env n userIds w] by simp
        with False \<open>b = Some userIds\<close> \<open>newsletters w nid = Some n\<close>
        have "userIds = [] \<or> findById_throws env \<or> newsletter_save_throws env"
          by blast
        with Some \<open>b = Some userIds\<close> \<open>newsletters w nid = Some n\<close>
          deliver_Some_store(1) [OF Some]
        show ?thesis by (auto simp: send_def)
      qed
    qed
  qed
  then show ?thesis ..
qed

lemma send_recipients_grow:
  assumes "newsletters w i = Some n"
  shows "\<exists>n'. newsletters (fst (send env nid b w)) i = Some n'
           \<and> set (recipients n) \<subseteq> set (recipients n')"
  using send_store_cases [of env nid b w] assms
  by (auto simp: addToSet_set)

lemma patch_status_users: "users (fst (patch_status thr nid st w)) = users w"
  by (simp add: patch_status_def Let_def split: option.splits)

lemma delivery_throws_users:
  "users w' = users w \<Longrightarrow> delivery_throws env w' userIds = delivery_throws env w userIds"
  by (simp add: delivery_throws_def User_find_in_def)

text \<open>
  Claim C1. A send with a non-empty recipient list, for a newsletter that exists, in which
  the call to the delivery provider is made and fails: the whole state is as before (so
  are the newsletter's status and recipients, and the notifications), and the caller gets
  the failure response with code 500.
\<close>

theorem C1_delivery_failure_aborts:
  assumes "userIds \<noteq> []" and "\<not> findById_throws env" and "newsletters w nid = Some n"
    and "delivery_call_fails env w userIds"
  shows "fst (send env nid (Some userIds) w) = w
       \<and> newsletters (fst (send env nid (Some userIds) w)) nid = Some n
       \<and> notifications (fst (send env nid (Some userIds) w)) = notifications w
       \<and> snd (send env nid (Some userIds) w)
           = Response 500 (Message ''Failed to send newsletter due to a server error.'')"
  using send_aborts [OF assms(1-3) delivery_call_fails_throws [OF assms(4)]] assms(3)
  by (simp add: send_failed_def)

theorem C1_delivery_failure_aborts_witness:
  "send (sample_send_env\<lparr>sgMail_send_throws := True\<rparr>) 7 (Some [2, 1]) sample_world
     = (sample_world, Response 500 (Message ''Failed to send newsletter due to a server error.''))"
proof -
  let ?env = "sample_send_env\<lparr>sgMail_send_throws := True\<rparr>"
  have h1: "[2, 1 :: objectId] \<noteq> []" by simp
  have h2: "\<not> findById_throws ?env" by (simp add: sample_send_env_def)
  have h3: "newsletters sample_world 7 = Some sample_newsletter"
    by (simp add: sample_world_def)
  have h4: "delivery_call_fails ?env sample_world [2, 1]"
    by (simp add: delivery_call_fails_def sample_send_env_def User_find_in_def
        sample_world_def empty_world_def sample_users_def)
  from C1_delivery_failure_aborts [OF h1 h2 h3 h4] show ?thesis
    by (simp add: prod_eq_iff)
qed

text \<open>
  Claim C2. A send with a non-empty recipient list for a newsletter that exists, whose
  delivery block does not throw (the provider accepted the message, or no provider is
  configured, or no address was resolved) and whose save succeeds: the stored status is
  \<^verbatim>\<open>sent\<close> and the stored recipients are, as a set, the union of the prior
  recipients and the given identities, with no duplicate added. Under any send at all, to
  any identity and whatever the environment does, the recipient set of a stored
  newsletter never loses a member.
\<close>

theorem C2_send_merges_recipients:
  assumes "userIds \<noteq> []" and "\<not> findById_throws env" and "newsletters w nid = Some n"
    and "\<not> delivery_throws env w userIds" and "\<not> newsletter_save_throws env"
  shows "(\<exists>n'. newsletters (fst (send env nid (Some userIds) w)) nid = Some n'
            \<and> status n' = ''sent''
            \<and> set (recipients n') = set (recipients n) \<union> set userIds
            \<and> (distinct (recipients n) \<longrightarrow> distinct (recipients n')))
       \<and> (\<forall>env' nid' b. \<exists>n'. newsletters (fst (send env' nid' b w)) nid = Some n'
            \<and> set (recipients n) \<subseteq> set (recipients n'))"
proof
  show "\<exists>n'. newsletters (fst (send env nid (Some userIds) w)) nid = Some n'
            \<and> status n' = ''sent''
            \<and> set (recipients n') = set (recipients n) \<union> set userIds
            \<and> (distinct (recipients n) \<longrightarrow> distinct (recipients n'))"
    by (simp add: send_stores(1) [OF assms] addToSet_set addToSet_distinct)
  show "\<forall>env' nid' b. \<exists>n'. newsletters (fst (send env' nid' b w)) nid = Some n'
            \<and> set (recipients n) \<subseteq> set (recipients n')"
    using send_recipients_grow [OF assms(3)] by blast
qed

lemma sample_send_hyps:
  "[2, 1, 2 :: objectId] \<noteq> []"
  "\<not> findById_throws sample_send_env"
  "newsletters sample_world 7 = Some sample_newsletter"
  "\<not> newsletter_save_throws sample_send_env"
  by (simp_all add: sample_send_env_def sample_world_def)

lemma sample_delivery_ok: "\<not> delivery_throws sample_send_env sample_world userIds"
  by (simp add: delivery_throws_def sample_send_env_def)

theorem C2_send_merges_recipients_witness:
  "(\<exists>n'. newsletters (fst (send sample_send_env 7 (Some [2, 1, 2]) sample_world)) 7 = Some n'
       \<and> status n' = ''sent'' \<and> set (recipients n') = {1, 2})
   \<and> recipients sample_newsletter = [1]"
proof -
  have d: "\<not> delivery_throws sample_send_env sample_world [2, 1, 2]"
    by (rule sample_delivery_ok)
  have "set (recipients sample_newsletter) \<union> set [2, 1, 2 :: objectId] = {1, 2}"
    by (auto simp: sample_newsletter_def)
  with C2_send_merges_recipients [OF sample_send_hyps(1-3) d sample_send_hyps(4)]
  show ?thesis
    by (auto simp: sample_newsletter_def)
qed

text \<open>
  Claim C5. Whatever the prior status of the newsletter, a successful send stores the
  status \<^verbatim>\<open>sent\<close>; in particular after the status update has stored
  \<^verbatim>\<open>declined\<close>.
\<close>

theorem C5_send_forces_sent:
  assumes "userIds \<noteq> []" and "\<not> findById_throws env" and "newsletters w nid = Some n"
    and "\<not> delivery_throws env w userIds" and "\<not> newsletter_save_throws env"
  shows "(\<exists>n'. newsletters (fst (send env nid (Some userIds) w)) nid = Some n'
            \<and> status n' = ''sent'')
       \<and> (\<exists>d. newsletters (fst (patch_status False nid ''declined'' w)) nid = Some d
            \<and> status d = ''declined''
            \<and> (\<exists>s. newsletters (fst (send env nid (Some userIds)
                        (fst (patch_status False nid ''declined'' w)))) nid = Some s
                  \<and> status s = ''sent''))"
proof
  show "\<exists>n'. newsletters (fst (send env nid (Some userIds) w)) nid = Some n'
            \<and> status n' = ''sent''"
    by (simp add: send_stores(1) [OF assms])
next
  let ?w1 = "fst (patch_status False nid ''declined'' w)"
  let ?d = "n\<lparr>status := ''declined''\<rparr>"
  have p: "newsletters ?w1 nid = Some ?d"
    using assms(3) by (simp add: patch_status_def Let_def)
  have "\<not> delivery_throws env ?w1 userIds"
    using assms(4) by (simp add: delivery_throws_users [OF patch_status_users])
  note s = send_stores(1) [OF assms(1,2) p this assms(5)]
  show "\<exists>d. newsletters ?w1 nid = Some d \<and> status d = ''declined''
            \<and> (\<exists>s. newsletters (fst (send env nid (Some userIds) ?w1)) nid = Some s
                  \<and> status s = ''sent'')"
    using p by (simp add: s)
qed

theorem C5_send_forces_sent_witness:
  "(\<exists>d. newsletters (fst (patch_status False 7 ''declined'' sample_world)) 7 = Some d
        \<and> status d = ''declined''
        \<and> (\<exists>s. newsletters (fst (send sample_send_env 7 (Some [2, 1, 2])
                    (fst (patch_status False 7 ''declined'' sample_world)))) 7 = Some s
              \<and> status s = ''sent''))
   \<and> status sample_newsletter = ''approved''"
proof -
  have d: "\<not> delivery_throws sample_send_env sample_world [2, 1, 2]"
    by (rule sample_delivery_ok)
  from C5_send_forces_sent [OF sample_send_hyps(1-3) d sample_send_hyps(4)]
  show ?thesis
    by (simp add: sample_newsletter_def)
qed

text \<open>
  Claim C6. When delivery and the save succeed and the batch write of the notifications
  throws, the caller still gets the success response, a read of the newsletter gives the
  status \<^verbatim>\<open>sent\<close> and the merged recipients, and the stored newsletters are the
  same as in the run where the batch write succeeded.
\<close>

theorem C6_notification_failure_is_not_fatal:
  assumes "userIds \<noteq> []" and "\<not> findById_throws env" and "newsletters w nid = Some n"
    and "\<not> delivery_throws env w userIds" and "\<not> newsletter_save_throws env"
    and "insertMany_outcome env = InsertError wrote"
  shows "snd (send env nid (Some userIds) w)
           = Response 200 (Message (''Newsletter successfully sent to ''
                                      @ show_nat (length userIds) @ '' user(s).''))
       \<and> (\<exists>n'. newsletters (fst (send env nid (Some userIds) w)) nid = Some n'
            \<and> status n' = ''sent''
            \<and> set (recipients n') = set (recipients n) \<union> set userIds)
       \<and> newsletters (fst (send env nid (Some userIds) w))
           = newsletters (fst (send (env\<lparr>insertMany_outcome := Inserted\<rparr>) nid (Some userIds) w))"
proof -
  let ?env' = "env\<lparr>insertMany_outcome := Inserted\<rparr>"
  have e: "\<not> findById_throws ?env'" "\<not> delivery_throws ?env' w userIds"
    "\<not> newsletter_save_throws ?env'"
    using assms(2,4,5) by (simp_all add: delivery_throws_def)
  show ?thesis
    by (simp add: send_stores [OF assms(1-5)]
        send_stores(1) [OF assms(1) e(1) assms(3) e(2,3)] addToSet_set)
qed

theorem C6_notification_failure_is_not_fatal_witness:
  "snd (send (sample_send_env\<lparr>insertMany_outcome := InsertError (\<lambda>i. False)\<rparr>) 7
          (Some [2, 1, 2]) sample_world)
     = Response 200 (Message ''Newsletter successfully sent to 3 user(s).'')
   \<and> (\<exists>n'. newsletters (fst (send (sample_send_env\<lparr>insertMany_outcome := InsertError (\<lambda>i. False)\<rparr>)
                7 (Some [2, 1, 2]) sample_world)) 7 = Some n'
        \<and> status n' = ''sent'' \<and> set (recipients n') = {1, 2})
   \<and> notifications (fst (send (sample_send_env\<lparr>insertMany_outcome := InsertError (\<lambda>i. False)\<rparr>)
                7 (Some [2, 1, 2]) sample_world)) = []"
proof -
  let ?env = "sample_send_env\<lparr>insertMany_outcome := InsertError (\<lambda>i. False)\<rparr>"
  have h: "\<not> findById_throws ?env" "\<not> delivery_throws ?env sample_world [2, 1, 2]"
    "\<not> newsletter_save_throws ?env" "insertMany_outcome ?env = InsertError (\<lambda>i. False)"
    by (simp_all add: sample_send_env_def delivery_throws_def)
  have u: "set (recipients sample_newsletter) \<union> set [2, 1, 2 :: objectId] = {1, 2}"
    by (auto simp: sample_newsletter_def)
  have l: "show_nat (length [2, 1, 2 :: objectId]) = ''3''"
    by (simp add: show_nat.simps digit_char_def)
  have n: "notifications (fst (send ?env 7 (Some [2, 1, 2]) sample_world)) = []"
    by (simp add: send_def sample_send_env_def sample_world_def empty_world_def
        deliver_def User_find_in_def sample_users_def emit_def Let_def
        notify_recipients_def send_notifications_def insertMany_def)
  note c = C6_notification_failure_is_not_fatal
    [OF sample_send_hyps(1) h(1) sample_send_hyps(3) h(2,3,4)]
  from c have r: "snd (send ?env 7 (Some [2, 1, 2]) sample_world)
      = Response 200 (Message (''Newsletter successfully sent to ''
                                 @ show_nat (length [2, 1, 2 :: objectId]) @ '' user(s).''))"
    by (rule conjunct1)
  from c obtain n' where "newsletters (fst (send ?env 7 (Some [2, 1, 2]) sample_world)) 7 = Some n'"
    and "status n' = ''sent''"
    and "set (recipients n') = set (recipients sample_newsletter) \<union> set [2, 1, 2]"
    by blast
  with u have "\<exists>n'. newsletters (fst (send ?env 7 (Some [2, 1, 2]) sample_world)) 7 = Some n'
        \<and> status n' = ''sent'' \<and> set (recipients n') = {1, 2}"
    by metis
  moreover from r have "snd (send ?env 7 (Some [2, 1, 2]) sample_world)
     = Response 200 (Message ''Newsletter successfully sent to 3 user(s).'')"
    unfolding l by simp
  ultimately show ?thesis
    using n by blast
qed

text \<open>
  Claim C10. A status update whose identity matches no stored newsletter, the store call
  itself not failing, answers 200 with the body \<^verbatim>\<open>null\<close> and leaves the state as
  it was: no record is created or modified.
\<close>

theorem C10_patch_unknown_identity:
  assumes "newsletters w nid = None"
  shows "patch_status False nid st w = (w, Response 200 (Doc None))"
  using assms by (simp add: patch_status_def)

theorem C10_patch_unknown_identity_witness:
  "newsletters sample_world 8 = None
   \<and> patch_status False 8 ''declined'' sample_world = (sample_world, Response 200 (Doc None))"
proof -
  have h: "newsletters sample_world 8 = None"
    by (simp add: sample_world_def empty_world_def)
  from C10_patch_unknown_identity [OF h] h show ?thesis
    by simp
qed

section \<open>The generation route: properties\<close>

lemma strip_code_fence_wrapped:
  "strip_code_fence (''```html\<newline>'' @ h @ ''\<newline>```'') = h"
proof -
  have "replace_at_start ''```html\<newline>'' (''```html\<newline>'' @ h @ ''\<newline>```'') = h @ ''\<newline>```''"
    unfolding replace_at_start_def by (simp only: prefixI if_True append_eq_conv_conj drop_append) simp
  then show ?thesis
    by (simp add: strip_code_fence_def replace_at_end_def suffix_def)
qed

lemma render_snd:
  "snd (render env h w) = (if render_throws env then None else pdf_result env)"
  by (cases "pdf_result env") (simp_all add: render_def render_throws_def Let_def)

lemma render_store:
  "newsletters (fst (render env h w)) = newsletters w"
  "notifications (fst (render env h w)) = notifications w"
  by (simp_all add: render_def emit_def Let_def split: option.splits)

lemma render_result:
  assumes "render env h w = (w', r)"
  shows "newsletters w' = newsletters w"
    and "r = (if render_throws env then None else pdf_result env)"
  using assms render_snd [of env h w] render_store(1) [of env h w] by simp_all

lemma render_launches:
  "launches (fst (render env h w)) = (if launch_throws env then launches w else launches w + 1)"
  by (simp add: render_def launches_def emit_def Let_def split: option.splits)

lemma render_closes:
  "closes (fst (render env h w)) = (if render_throws env then closes w else closes w + 1)"
  by (auto simp: render_def render_throws_def closes_def emit_def Let_def split: option.splits)

lemma generate_pipeline_store_cases:
  "newsletters (fst (generate_pipeline env u arts ttl cat w)) = newsletters w \<or>
   (\<exists>raw buf. generateContent_result env = Some raw
       \<and> \<not> html_rejected (strip_code_fence raw)
       \<and> pdf_result env = Some buf \<and> \<not> render_throws env
       \<and> newsletters w (new_id env) = None
       \<and> newsletters (fst (generate_pipeline env u arts ttl cat w))
           = (newsletters w)(new_id env \<mapsto> created arts ttl cat (strip_code_fence raw) buf))"
proof (cases "Category_findOne_throws env")
  case True
  then show ?thesis by (simp add: generate_pipeline_def)
next
  case no_throw: False
  show ?thesis
  proof (cases "generateContent_result env")
    case None
    with no_throw show ?thesis by (simp add: generate_pipeline_def Let_def emit_def)
  next
    case (Some raw)
    let ?h = "strip_code_fence raw"
    let ?w1 = "emit (GenerateContent (createAdvancedNewsletterHtmlPrompt (now env) arts ttl
        (case find (\<lambda>c. c_name c = cat) (categories w) of
           None \<Rightarrow> None | Some categoryData \<Rightarrow> c_flyerImageUrl categoryData))) w"
    have w1: "newsletters ?w1 = newsletters w" by (simp add: emit_def)
    show ?thesis
    proof (cases "html_rejected ?h")
      case True
      with no_throw Some show ?thesis by (simp add: generate_pipeline_def Let_def emit_def)
    next
      case ok: False
      obtain w2 r where r: "render env ?h ?w1 = (w2, r)" by (cases "render env ?h ?w1")
      note rr = render_result [OF r]
      show ?thesis
      proof (cases r)
        case None
        with no_throw Some ok r rr(1) w1 show ?thesis
          by (simp add: generate_pipeline_def Let_def)
      next
        case (Some buf)
        with rr(2) have buf: "pdf_result env = Some buf" and nt: "\<not> render_throws env"
          by (simp_all split: if_splits)
        from rr(1) w1 have s2: "newsletters w2 = newsletters w" by simp
        show ?thesis
        proof (cases "newNewsletter_save_throws env \<or> newsletters w (new_id env) \<noteq> None")
          case True
          with no_throw \<open>generateContent_result env = Some raw\<close> ok r Some s2 show ?thesis
            by (auto simp: generate_pipeline_def Let_def)
        next
          case False
          with no_throw \<open>generateContent_result env = Some raw\<close> ok r Some s2
          have "newsletters (fst (generate_pipeline env u arts ttl cat w))
                  = (newsletters w)(new_id env \<mapsto> created arts ttl cat (strip_code_fence raw) buf)"
            by (simp add: generate_pipeline_def Let_def created_def)
          moreover from False have "newsletters w (new_id env) = None" by simp
          ultimately show ?thesis
            using \<open>generateContent_result env = Some raw\<close> ok buf nt
            by (intro disjI2 exI [of _ raw] exI [of _ buf]) simp
        qed
      qed
    qed
  qed
qed

lemma generate_store_cases:
  "newsletters (fst (generate_and_save env u req w)) = newsletters w \<or>
   (\<exists>arts ttl cat raw buf. body_fields req = Some (arts, ttl, cat)
       \<and> generateContent_result env = Some raw
       \<and> \<not> html_rejected (strip_code_fence raw)
       \<and> pdf_result env = Some buf \<and> \<not> render_throws env
       \<and> newsletters w (new_id env) = None
       \<and> newsletters (fst (generate_and_save env u req w))
           = (newsletters w)(new_id env \<mapsto> created arts ttl cat (strip_code_fence raw) buf))"
proof (cases "GEMINI_API_KEY env")
  case False
  then show ?thesis by (simp add: generate_and_save_def)
next
  case True
  show ?thesis
  proof (cases "body_fields req")
    case None
    with True show ?thesis by (simp add: generate_and_save_def)
  next
    case (Some f)
    obtain arts ttl cat where f: "f = (arts, ttl, cat)" by (cases f)
    with True Some have "generate_and_save env u req w = generate_pipeline env u arts ttl cat w"
      by (simp add: generate_and_save_def)
    with generate_pipeline_store_cases [of env u arts ttl cat w] Some f show ?thesis
      by auto
  qed
qed

lemma generate_valid:
  assumes "GEMINI_API_KEY env" and "body_fields req = Some (arts, ttl, cat)"
  shows "generate_and_save env u req w = generate_pipeline env u arts ttl cat w"
  using assms by (simp add: generate_and_save_def)

lemma launches_emit:
  "launches (emit e w) = (if e = BrowserLaunch then launches w + 1 else launches w)"
  by (simp add: launches_def emit_def)

lemma closes_emit:
  "closes (emit e w) = (if e = BrowserClose then closes w + 1 else closes w)"
  by (simp add: closes_def emit_def)

lemma generate_pipeline_rejects:
  assumes "\<not> Category_findOne_throws env" and "generateContent_result env = Some raw"
    and "html_rejected (strip_code_fence raw)"
  shows "snd (generate_pipeline env u arts ttl cat w) = generate_failed"
    and "launches (fst (generate_pipeline env u arts ttl cat w)) = launches w"
    and "newsletters (fst (generate_pipeline env u arts ttl cat w)) = newsletters w"
    and "notifications (fst (generate_pipeline env u arts ttl cat w)) = notifications w"
  using assms by (simp_all add: generate_pipeline_def Let_def launches_emit) (simp_all add: emit_def)

text \<open>Once the markup has passed the check of line 122, the events of the run are those of
  the render block.\<close>

lemma generate_pipeline_events:
  assumes "\<not> Category_findOne_throws env" and "generateContent_result env = Some raw"
    and "\<not> html_rejected (strip_code_fence raw)"
  shows "\<exists>p. events (fst (generate_pipeline env u arts ttl cat w))
           = events (fst (render env (strip_code_fence raw) (emit (GenerateContent p) w)))"
proof -
  let ?p = "createAdvancedNewsletterHtmlPrompt (now env) arts ttl
        (case find (\<lambda>c. c_name c = cat) (categories w) of
           None \<Rightarrow> None | Some categoryData \<Rightarrow> c_flyerImageUrl categoryData)"
  let ?w1 = "emit (GenerateContent ?p) w"
  obtain w2 r where r: "render env (strip_code_fence raw) ?w1 = (w2, r)"
    by (cases "render env (strip_code_fence raw) ?w1")
  have "events (fst (generate_pipeline env u arts ttl cat w)) = events w2"
    using assms r by (cases r) (simp_all add: generate_pipeline_def Let_def)
  with r show ?thesis
    by (intro exI [of _ ?p]) simp
qed

lemma generate_pipeline_renders:
  assumes "\<not> Category_findOne_throws env" and "generateContent_result env = Some raw"
    and "\<not> html_rejected (strip_code_fence raw)"
  shows "launches (fst (generate_pipeline env u arts ttl cat w))
           = (if launch_throws env then launches w else launches w + 1)"
    and "closes (fst (generate_pipeline env u arts ttl cat w))
           = (if render_throws env then closes w else closes w + 1)"
proof -
  from generate_pipeline_events [OF assms] obtain p where
    e: "events (fst (generate_pipeline env u arts ttl cat w))
           = events (fst (render env (strip_code_fence raw) (emit (GenerateContent p) w)))" ..
  have "launches (fst (generate_pipeline env u arts ttl cat w))
          = launches (fst (render env (strip_code_fence raw) (emit (GenerateContent p) w)))"
    unfolding launches_def e ..
  then show "launches (fst (generate_pipeline env u arts ttl cat w))
           = (if launch_throws env then launches w else launches w + 1)"
    by (simp add: render_launches launches_emit)
  have "closes (fst (generate_pipeline env u arts ttl cat w))
          = closes (fst (render env (strip_code_fence raw) (emit (GenerateContent p) w)))"
    unfolding closes_def e ..
  then show "closes (fst (generate_pipeline env u arts ttl cat w))
           = (if render_throws env then closes w else closes w + 1)"
    by (simp add: render_closes closes_emit)
qed

text \<open>The browser of a run that launched one and then failed on the page stays open.\<close>

lemma browser_not_closed:
  assumes "GEMINI_API_KEY env" and "body_fields req = Some (arts, ttl, cat)"
    and "\<not> Category_findOne_throws env" and "generateContent_result env = Some raw"
    and "\<not> html_rejected (strip_code_fence raw)" and "\<not> launch_throws env"
    and "newPage_throws env \<or> setContent_throws env \<or> pdf_result env = None"
  shows "launches (fst (generate_and_save env u req w)) = launches w + 1"
    and "closes (fst (generate_and_save env u req w)) = closes w"
proof -
  from assms(7) have "render_throws env" by (auto simp: render_throws_def)
  with generate_pipeline_renders [OF assms(3-5), of u arts ttl cat w] assms(6)
  show "launches (fst (generate_and_save env u req w)) = launches w + 1"
    and "closes (fst (generate_and_save env u req w)) = closes w"
    by (simp_all add: generate_valid [OF assms(1,2)])
qed

lemma sample_body_fields:
  "body_fields sample_body = Some ([sample_article], ''Weekly Digest'', ''Tech'')"
  by (simp add: body_fields_def sample_body_def)

lemma sample_html_accepted: "\<not> html_rejected sample_html"
  by (simp add: html_rejected_def sample_html_def)

lemma strip_fenced_reply: "strip_code_fence fenced_reply = sample_html"
  unfolding fenced_reply_def by (rule strip_code_fence_wrapped)

lemma strip_plain_reply: "strip_code_fence plain_reply = plain_reply"
  by code_simp

lemma plain_reply_accepted: "\<not> html_rejected plain_reply"
  by (simp add: html_rejected_def plain_reply_def)

text \<open>
  Claim C3, as the code has it. The two replacements take an opening
  \<^verbatim>\<open>```html\<close> line and a closing \<^verbatim>\<open>```\<close> line off the reply. For a request
  that reaches the generation service and gets a reply: when the stripped text is empty
  or shorter than 100 characters the handler answers the failure response with code 500,
  launches no browser and stores nothing; when the stripped text has 100 characters or
  more the browser is launched (if it can be), whatever the text begins with.
\<close>

theorem C3_validator_rejects_short_markup:
  assumes "GEMINI_API_KEY env" and "body_fields req = Some (arts, ttl, cat)"
    and "\<not> Category_findOne_throws env" and "generateContent_result env = Some raw"
  shows "strip_code_fence (''```html\<newline>'' @ h @ ''\<newline>```'') = h
       \<and> (strip_code_fence raw = [] \<or> length (strip_code_fence raw) < 100 \<longrightarrow>
            snd (generate_and_save env u req w) = generate_failed
            \<and> code generate_failed = 500
            \<and> launches (fst (generate_and_save env u req w)) = launches w
            \<and> newsletters (fst (generate_and_save env u req w)) = newsletters w)
       \<and> (100 \<le> length (strip_code_fence raw) \<and> \<not> launch_throws env \<longrightarrow>
            launches (fst (generate_and_save env u req w)) = launches w + 1)"
proof (intro conjI impI)
  show "strip_code_fence (''```html\<newline>'' @ h @ ''\<newline>```'') = h"
    by (rule strip_code_fence_wrapped)
next
  assume "strip_code_fence raw = [] \<or> length (strip_code_fence raw) < 100"
  then have r: "html_rejected (strip_code_fence raw)"
    by (simp add: html_rejected_def)
  note g = generate_pipeline_rejects [OF assms(3,4) r, of u arts ttl cat w]
  show "snd (generate_and_save env u req w) = generate_failed"
    by (simp add: generate_valid [OF assms(1,2)] g)
  show "code generate_failed = 500"
    by (simp add: generate_failed_def)
  show "launches (fst (generate_and_save env u req w)) = launches w"
    by (simp add: generate_valid [OF assms(1,2)] g)
  show "newsletters (fst (generate_and_save env u req w)) = newsletters w"
    by (simp add: generate_valid [OF assms(1,2)] g)
next
  assume "100 \<le> length (strip_code_fence raw) \<and> \<not> launch_throws env"
  then have r: "\<not> html_rejected (strip_code_fence raw)" and l: "\<not> launch_throws env"
    by (auto simp: html_rejected_def)
  show "launches (fst (generate_and_save env u req w)) = launches w + 1"
    by (simp add: generate_valid [OF assms(1,2)] generate_pipeline_renders(1) [OF assms(3,4) r] l)
qed

theorem C3_validator_rejects_short_markup_witness:
  "snd (generate_and_save (sample_gen_env\<lparr>generateContent_result := Some ''<!DOCTYPE html>''\<rparr>)
          1 sample_body empty_world) = generate_failed
   \<and> launches (fst (generate_and_save
          (sample_gen_env\<lparr>generateContent_result := Some ''<!DOCTYPE html>''\<rparr>)
          1 sample_body empty_world)) = 0
   \<and> launches (fst (generate_and_save sample_gen_env 1 sample_body empty_world)) = 1
   \<and> strip_code_fence fenced_reply = sample_html"
proof -
  let ?short = "sample_gen_env\<lparr>generateContent_result := Some ''<!DOCTYPE html>''\<rparr>"
  have s: "strip_code_fence ''<!DOCTYPE html>'' = ''<!DOCTYPE html>''"
    by code_simp
  have e: "GEMINI_API_KEY ?short" "\<not> Category_findOne_throws ?short"
    "generateContent_result ?short = Some ''<!DOCTYPE html>''"
    "GEMINI_API_KEY sample_gen_env" "\<not> Category_findOne_throws sample_gen_env"
    "generateContent_result sample_gen_env = Some fenced_reply"
    "\<not> launch_throws sample_gen_env"
    by (simp_all add: sample_gen_env_def)
  have z: "launches empty_world = 0"
    by (simp add: launches_def empty_world_def)
  have len: "100 \<le> length sample_html"
    by (simp add: sample_html_def)
  from C3_validator_rejects_short_markup [OF e(1) sample_body_fields e(2,3), of sample_html 1 empty_world]
    C3_validator_rejects_short_markup [OF e(4) sample_body_fields e(5,6), of sample_html 1 empty_world]
  show ?thesis
    using s z len e(7) by (simp add: strip_fenced_reply fenced_reply_def [symmetric])
qed

text \<open>
  Claim C3 as stated fails: a reply of one hundred letters \<open>a\<close> does not begin with
  \<^verbatim>\<open><!DOCTYPE html>\<close>, and yet it is rendered and the request answers 200 with
  the artifact.
\<close>

theorem C3_marker_not_checked:
  "\<not> prefix ''<!DOCTYPE html>'' (strip_code_fence plain_reply)
   \<and> snd (generate_and_save (sample_gen_env\<lparr>generateContent_result := Some plain_reply\<rparr>)
            1 sample_body empty_world) = Response 200 (PdfData [37, 80, 68, 70])
   \<and> launches (fst (generate_and_save (sample_gen_env\<lparr>generateContent_result := Some plain_reply\<rparr>)
            1 sample_body empty_world)) = 1"
proof -
  let ?env = "sample_gen_env\<lparr>generateContent_result := Some plain_reply\<rparr>"
  have e: "GEMINI_API_KEY ?env" "\<not> Category_findOne_throws ?env"
    "generateContent_result ?env = Some plain_reply" "\<not> launch_throws ?env"
    by (simp_all add: sample_gen_env_def)
  have ok: "\<not> html_rejected (strip_code_fence plain_reply)"
    by (simp add: strip_plain_reply plain_reply_accepted)
  have 1: "\<not> prefix ''<!DOCTYPE html>'' (strip_code_fence plain_reply)"
    by code_simp
  have v: "generate_and_save ?env 1 sample_body empty_world
             = generate_pipeline ?env 1 [sample_article] ''Weekly Digest'' ''Tech'' empty_world"
    by (rule generate_valid [OF e(1) sample_body_fields])
  have z: "launches empty_world = 0"
    by (simp add: launches_def empty_world_def)
  have 3: "launches (fst (generate_and_save ?env 1 sample_body empty_world)) = 1"
    using generate_pipeline_renders(1) [OF e(2,3) ok, of 1 "[sample_article]" "''Weekly Digest''" "''Tech''" empty_world] e(4)
    by (simp add: v z)
  have 2: "snd (generate_and_save ?env 1 sample_body empty_world)
             = Response 200 (PdfData [37, 80, 68, 70])"
    unfolding v
    by (simp add: generate_pipeline_def strip_plain_reply plain_reply_accepted Let_def
        sample_gen_env_def render_def emit_def empty_world_def)
  from 1 2 3 show ?thesis by blast
qed

text \<open>
  Claim C4 at a run where \<^verbatim>\<open>page.setContent\<close> throws: one browser has been
  launched, none has been closed, and the request has answered the failure response.
  \<^verbatim>\<open>browser.close()\<close> stands only on the path where every call before it
  returned.
\<close>

theorem C4_browser_left_open:
  "launches (fst (generate_and_save (sample_gen_env\<lparr>setContent_throws := True\<rparr>)
            1 sample_body empty_world)) = 1
   \<and> closes (fst (generate_and_save (sample_gen_env\<lparr>setContent_throws := True\<rparr>)
            1 sample_body empty_world)) = 0
   \<and> snd (generate_and_save (sample_gen_env\<lparr>setContent_throws := True\<rparr>)
            1 sample_body empty_world) = generate_failed"
proof -
  let ?env = "sample_gen_env\<lparr>setContent_throws := True\<rparr>"
  have e: "GEMINI_API_KEY ?env" "\<not> Category_findOne_throws ?env"
    "generateContent_result ?env = Some fenced_reply" "\<not> launch_throws ?env"
    "newPage_throws ?env \<or> setContent_throws ?env \<or> pdf_result ?env = None"
    by (simp_all add: sample_gen_env_def)
  have ok: "\<not> html_rejected (strip_code_fence fenced_reply)"
    by (simp add: strip_fenced_reply sample_html_accepted)
  have z: "launches empty_world = 0" "closes empty_world = 0"
    by (simp_all add: launches_def closes_def empty_world_def)
  have v: "generate_and_save ?env 1 sample_body empty_world
             = generate_pipeline ?env 1 [sample_article] ''Weekly Digest'' ''Tech'' empty_world"
    by (rule generate_valid [OF e(1) sample_body_fields])
  have "snd (generate_and_save ?env 1 sample_body empty_world) = generate_failed"
    unfolding v
    by (simp add: generate_pipeline_def strip_fenced_reply sample_html_accepted Let_def
        sample_gen_env_def render_def)
  with browser_not_closed [OF e(1) sample_body_fields e(2,3) ok e(4,5), of 1 empty_world] z
  show ?thesis by simp
qed

lemma patch_status_store_cases:
  "newsletters (fst (patch_status thr nid st w)) = newsletters w \<or>
   (\<exists>n. newsletters w nid = Some n \<and>
      newsletters (fst (patch_status thr nid st w)) = (newsletters w)(nid \<mapsto> n\<lparr>status := st\<rparr>))"
  by (cases "newsletters w nid") (simp_all add: patch_status_def Let_def)

lemma delete_newsletter_store_cases:
  "newsletters (fst (delete_newsletter thr nid w)) = newsletters w \<or>
   newsletters (fst (delete_newsletter thr nid w)) = (newsletters w)(nid := None)"
  by (cases "newsletters w nid") (simp_all add: delete_newsletter_def)

lemma created_complete: "has_artifact (created arts ttl cat h buf) \<and> has_markup (created arts ttl cat h buf)"
  by (simp add: created_def has_artifact_def has_markup_def)

text \<open>Every stored newsletter holds both its artifact and its markup.\<close>

lemma reachable_complete:
  "reachable w \<Longrightarrow> newsletters w i = Some n \<Longrightarrow> has_artifact n \<and> has_markup n"
proof (induction arbitrary: i n rule: reachable.induct)
  case (reach_init w)
  then show ?case by simp
next
  case (reach_generate w env req_user req)
  from generate_store_cases [of env req_user req w] show ?case
  proof
    assume "newsletters (fst (generate_and_save env req_user req w)) = newsletters w"
    with reach_generate show ?thesis by simp
  next
    assume "\<exists>arts ttl cat raw buf. body_fields req = Some (arts, ttl, cat)
       \<and> generateContent_result env = Some raw
       \<and> \<not> html_rejected (strip_code_fence raw)
       \<and> pdf_result env = Some buf \<and> \<not> render_throws env
       \<and> newsletters w (new_id env) = None
       \<and> newsletters (fst (generate_and_save env req_user req w))
           = (newsletters w)(new_id env \<mapsto> created arts ttl cat (strip_code_fence raw) buf)"
    then obtain arts ttl cat raw buf where
      "newsletters (fst (generate_and_save env req_user req w))
           = (newsletters w)(new_id env \<mapsto> created arts ttl cat (strip_code_fence raw) buf)"
      by blast
    with reach_generate created_complete show ?thesis
      by (cases "i = new_id env") auto
  qed
next
  case (reach_patch w thr nid st)
  from patch_status_store_cases [of thr nid st w] show ?case
  proof
    assume "newsletters (fst (patch_status thr nid st w)) = newsletters w"
    with reach_patch show ?thesis by simp
  next
    assume "\<exists>m. newsletters w nid = Some m \<and>
      newsletters (fst (patch_status thr nid st w)) = (newsletters w)(nid \<mapsto> m\<lparr>status := st\<rparr>)"
    then obtain m where m: "newsletters w nid = Some m"
      and "newsletters (fst (patch_status thr nid st w)) = (newsletters w)(nid \<mapsto> m\<lparr>status := st\<rparr>)"
      by blast
    with reach_patch.prems reach_patch.IH [of i n] reach_patch.IH [OF m] show ?thesis
      by (cases "i = nid") (auto simp: has_artifact_def has_markup_def)
  qed
next
  case (reach_delete w thr nid)
  from delete_newsletter_store_cases [of thr nid w] reach_delete.prems reach_delete.IH [of i n]
  show ?case
    by (cases "i = nid") auto
next
  case (reach_send w senv nid body_userIds)
  from send_store_cases [of senv nid body_userIds w] show ?case
  proof
    assume "newsletters (fst (send senv nid body_userIds w)) = newsletters w"
    with reach_send show ?thesis by simp
  next
    assume "\<exists>m userIds. newsletters w nid = Some m \<and>
      newsletters (fst (send senv nid body_userIds w)) =
        (newsletters w)(nid \<mapsto> m\<lparr>status := ''sent'',
                                   recipients := addToSet (recipients m) userIds\<rparr>)"
    then obtain m userIds where m: "newsletters w nid = Some m"
      and "newsletters (fst (send senv nid body_userIds w)) =
        (newsletters w)(nid \<mapsto> m\<lparr>status := ''sent'',
                                   recipients := addToSet (recipients m) userIds\<rparr>)"
      by blast
    with reach_send.prems reach_send.IH [of i n] reach_send.IH [OF m] show ?thesis
      by (cases "i = nid") (auto simp: has_artifact_def has_markup_def)
  qed
qed

lemma render_fails_nothing_stored:
  assumes "render_throws env"
  shows "newsletters (fst (generate_and_save env u req w)) = newsletters w"
  using generate_store_cases [of env u req w] assms by blast

lemma sample_generate_store:
  "newsletters (fst (generate_and_save sample_gen_env 1 sample_body empty_world))
     = [7 \<mapsto> created [sample_article] ''Weekly Digest'' ''Tech'' sample_html [37, 80, 68, 70]]"
proof -
  have e: "GEMINI_API_KEY sample_gen_env" by (simp add: sample_gen_env_def)
  show ?thesis
    unfolding generate_valid [OF e sample_body_fields]
    by (simp add: generate_pipeline_def strip_fenced_reply sample_html_accepted Let_def
        sample_gen_env_def render_def emit_def empty_world_def created_def)
qed

text \<open>
  Claim C7. When a call of the render block throws, the run of the generation route
  leaves the stored newsletters as they were. In every state the routes can reach from
  an empty store, a stored newsletter has its artifact exactly when it has its markup
  (it has both).
\<close>

theorem C7_generation_all_or_nothing:
  "(render_throws env \<longrightarrow> newsletters (fst (generate_and_save env u req w)) = newsletters w)
   \<and> (reachable w' \<and> newsletters w' i = Some n \<longrightarrow> (has_artifact n \<longleftrightarrow> has_markup n))"
  using render_fails_nothing_stored [of env u req w] reachable_complete [of w' i n]
  by blast

theorem C7_generation_all_or_nothing_witness:
  "render_throws (sample_gen_env\<lparr>setContent_throws := True\<rparr>)
   \<and> newsletters (fst (generate_and_save (sample_gen_env\<lparr>setContent_throws := True\<rparr>)
                         1 sample_body empty_world)) = Map.empty
   \<and> reachable (fst (generate_and_save sample_gen_env 1 sample_body empty_world))
   \<and> (\<exists>n. newsletters (fst (generate_and_save sample_gen_env 1 sample_body empty_world)) 7 = Some n
         \<and> has_artifact n \<and> has_markup n)"
proof -
  let ?env = "sample_gen_env\<lparr>setContent_throws := True\<rparr>"
  let ?w = "fst (generate_and_save sample_gen_env 1 sample_body empty_world)"
  let ?n = "created [sample_article] ''Weekly Digest'' ''Tech'' sample_html [37, 80, 68, 70]"
  have t: "render_throws ?env"
    by (simp add: render_throws_def)
  have r: "reachable ?w"
    by (rule reach_generate, rule reach_init) (simp add: empty_world_def)
  have s: "newsletters ?w 7 = Some ?n"
    by (simp add: sample_generate_store)
  have a: "has_artifact ?n"
    by (simp add: created_def has_artifact_def)
  have e: "newsletters empty_world = Map.empty"
    by (simp add: empty_world_def)
  note c = C7_generation_all_or_nothing [of ?env 1 sample_body empty_world ?w 7 ?n]
  from c t have "newsletters (fst (generate_and_save ?env 1 sample_body empty_world)) = Map.empty"
    unfolding e by blast
  moreover from c r s a have "has_markup ?n" by blast
  ultimately show ?thesis using t r s a by blast
qed

text \<open>
  Claim C9, as the code has it. A run of the generation route that changes the stored
  newsletters adds exactly one record, under an identity that was free, and that record
  has the status \<^verbatim>\<open>Not Sent\<close> (the first value of the schema's enumeration and its
  default: the initial state, which the specification writes \<open>not_sent\<close>), markup of
  at least 100 characters, and as its artifact exactly the bytes the rendering engine
  returned, of type \<^verbatim>\<open>application/pdf\<close>. The size of the artifact is not tested.
\<close>

theorem C9_created_record:
  assumes "newsletters (fst (generate_and_save env u req w)) \<noteq> newsletters w"
  shows "\<exists>n. newsletters (fst (generate_and_save env u req w)) = (newsletters w)(new_id env \<mapsto> n)
           \<and> newsletters w (new_id env) = None
           \<and> status n = ''Not Sent'' \<and> status n = hd status_enum \<and> status n = status_default
           \<and> (\<exists>buf. pdf_result env = Some buf \<and> data (pdfContent n) = Some buf
                  \<and> contentType (pdfContent n) = Some ''application/pdf'')
           \<and> (\<exists>h. htmlContent n = Some h \<and> h \<noteq> [] \<and> 100 \<le> length h)"
proof -
  from generate_store_cases [of env u req w] assms
  obtain arts ttl cat raw buf where ok: "\<not> html_rejected (strip_code_fence raw)"
    and buf: "pdf_result env = Some buf" and fresh: "newsletters w (new_id env) = None"
    and s: "newsletters (fst (generate_and_save env u req w))
           = (newsletters w)(new_id env \<mapsto> created arts ttl cat (strip_code_fence raw) buf)"
    by blast
  from ok have "strip_code_fence raw \<noteq> []" and "100 \<le> length (strip_code_fence raw)"
    by (simp_all add: html_rejected_def)
  then show ?thesis
    using s fresh buf
    by (intro exI [of _ "created arts ttl cat (strip_code_fence raw) buf"])
      (simp add: created_def status_enum_def status_default_def)
qed

theorem C9_created_record_witness:
  "\<exists>n. newsletters (fst (generate_and_save sample_gen_env 1 sample_body empty_world)) 7 = Some n
      \<and> title n = ''Weekly Digest'' \<and> category n = ''Tech''
      \<and> status n = ''Not Sent''
      \<and> data (pdfContent n) = Some [37, 80, 68, 70]
      \<and> (\<exists>h. htmlContent n = Some h \<and> h \<noteq> [])"
proof -
  let ?w = "fst (generate_and_save sample_gen_env 1 sample_body empty_world)"
  have e: "newsletters empty_world = Map.empty"
    by (simp add: empty_world_def)
  have 1: "newsletters ?w \<noteq> newsletters empty_world"
    unfolding sample_generate_store e by simp
  have 2: "pdf_result sample_gen_env = Some [37, 80, 68, 70]"
    by (simp add: sample_gen_env_def)
  have 3: "new_id sample_gen_env = 7"
    by (simp add: sample_gen_env_def)
  from C9_created_record [OF 1] obtain n buf where
    n: "newsletters ?w = (newsletters empty_world)(new_id sample_gen_env \<mapsto> n)"
    and "status n = ''Not Sent''"
    and "pdf_result sample_gen_env = Some buf" and "data (pdfContent n) = Some buf"
    and "\<exists>h. htmlContent n = Some h \<and> h \<noteq> [] \<and> 100 \<le> length h"
    by blast
  moreover from this 2 have "data (pdfContent n) = Some [37, 80, 68, 70]"
    by simp
  moreover from n have "newsletters ?w 7 = Some n"
    by (simp add: 3)
  moreover from this have "title n = ''Weekly Digest'' \<and> category n = ''Tech''"
    by (auto simp: sample_generate_store created_def)
  ultimately show ?thesis by blast
qed

text \<open>
  Claim C9 as stated fails in its artifact part: when the rendering engine returns a
  buffer of zero bytes, the route stores the record with an artifact that is present and
  empty, and answers 200 with the empty body; line 131 takes the buffer and lines 141 to
  147 store it without a look at its length.
\<close>

theorem C9_empty_artifact_stored:
  "newsletters (fst (generate_and_save (sample_gen_env\<lparr>pdf_result := Some []\<rparr>)
                       1 sample_body empty_world)) 7
     = Some (created [sample_article] ''Weekly Digest'' ''Tech'' sample_html [])
   \<and> data (pdfContent (created [sample_article] ''Weekly Digest'' ''Tech'' sample_html [])) = Some []
   \<and> status (created [sample_article] ''Weekly Digest'' ''Tech'' sample_html []) = ''Not Sent''
   \<and> snd (generate_and_save (sample_gen_env\<lparr>pdf_result := Some []\<rparr>)
             1 sample_body empty_world) = Response 200 (PdfData [])"
proof -
  let ?env = "sample_gen_env\<lparr>pdf_result := Some []\<rparr>"
  have e: "GEMINI_API_KEY ?env" by (simp add: sample_gen_env_def)
  have g: "generate_and_save ?env 1 sample_body empty_world
      = generate_pipeline ?env 1 [sample_article] ''Weekly Digest'' ''Tech'' empty_world"
    by (rule generate_valid [OF e sample_body_fields])
  have 1: "newsletters (fst (generate_and_save ?env 1 sample_body empty_world)) 7
      = Some (created [sample_article] ''Weekly Digest'' ''Tech'' sample_html [])"
    unfolding g
    by (simp add: generate_pipeline_def strip_fenced_reply sample_html_accepted Let_def
        sample_gen_env_def render_def emit_def empty_world_def created_def)
  have 2: "snd (generate_and_save ?env 1 sample_body empty_world) = Response 200 (PdfData [])"
    unfolding g
    by (simp add: generate_pipeline_def strip_fenced_reply sample_html_accepted Let_def
        sample_gen_env_def render_def emit_def empty_world_def)
  from 1 2 show ?thesis
    by (simp add: created_def)
qed

section \<open>The Prompt Composer: properties\<close>

text \<open>With the articles, the title and the flyer image fixed, two prompts agree exactly
  when the two formatted dates do.\<close>

lemma prompt_eq_iff:
  "createAdvancedNewsletterHtmlPrompt d arts ttl f = createAdvancedNewsletterHtmlPrompt d' arts ttl f
     \<longleftrightarrow> format_MMMM_do_yyyy d = format_MMMM_do_yyyy d'"
  by (simp add: createAdvancedNewsletterHtmlPrompt_def)

lemma format_same_day:
  assumes "getFullYear d = getFullYear d'" and "getMonth d = getMonth d'"
    and "getDate d = getDate d'"
  shows "format_MMMM_do_yyyy d = format_MMMM_do_yyyy d'"
  using assms by (simp add: format_MMMM_do_yyyy_def)

lemma format_sample_date: "format_MMMM_do_yyyy sample_date = ''January 1st, 2024''"
  by code_simp

lemma format_next_day: "format_MMMM_do_yyyy (sample_date\<lparr>getDate := 2\<rparr>) = ''January 2nd, 2024''"
  by code_simp

text \<open>
  Claim C8, as the code has it. The composer reads the clock and nothing else outside its
  arguments: two invocations with the same articles, title and flyer image on the same
  calendar day give the same text, character for character, and two invocations with the
  same arguments give the same text exactly when the two formatted dates agree.
\<close>

theorem C8_prompt_same_on_same_day:
  "(getFullYear d = getFullYear d' \<and> getMonth d = getMonth d' \<and> getDate d = getDate d' \<longrightarrow>
      createAdvancedNewsletterHtmlPrompt d arts ttl f
        = createAdvancedNewsletterHtmlPrompt d' arts ttl f)
   \<and> (createAdvancedNewsletterHtmlPrompt d arts ttl f
        = createAdvancedNewsletterHtmlPrompt d' arts ttl f
      \<longleftrightarrow> format_MMMM_do_yyyy d = format_MMMM_do_yyyy d')"
  using format_same_day [of d d'] prompt_eq_iff [of d arts ttl f d'] by blast

theorem C8_prompt_same_on_same_day_witness:
  "createAdvancedNewsletterHtmlPrompt sample_date [sample_article] ''Weekly Digest'' None
     = createAdvancedNewsletterHtmlPrompt (sample_date\<lparr>getHours := 17, getMinutes := 5\<rparr>)
         [sample_article] ''Weekly Digest'' None
   \<and> getHours sample_date \<noteq> getHours (sample_date\<lparr>getHours := 17, getMinutes := 5\<rparr>)"
proof -
  let ?d = "sample_date\<lparr>getHours := 17, getMinutes := 5\<rparr>"
  have h: "getFullYear sample_date = getFullYear ?d \<and> getMonth sample_date = getMonth ?d
      \<and> getDate sample_date = getDate ?d"
    by simp
  have "getHours sample_date \<noteq> getHours ?d"
    by (simp add: sample_date_def)
  with C8_prompt_same_on_same_day [of sample_date ?d "[sample_article]" "''Weekly Digest''" None] h
  show ?thesis by blast
qed

text \<open>
  Claim C8 as stated fails: the same articles, title and flyer image give two different
  texts on the first and on the second of January 2024.
\<close>

theorem C8_prompt_depends_on_clock:
  "createAdvancedNewsletterHtmlPrompt sample_date [sample_article] ''Weekly Digest'' None
     \<noteq> createAdvancedNewsletterHtmlPrompt (sample_date\<lparr>getDate := 2\<rparr>)
         [sample_article] ''Weekly Digest'' None"
  by (simp add: prompt_eq_iff format_sample_date format_next_day)

end
